theory Spec2Isabelle
  imports Complex_Main
begin

section \<open>JavaScript values\<close>

text \<open>
  The builders of \<^verbatim>\<open>index.js\<close> assemble one nested JavaScript object, the compact
  element tree that the library xml-js serialises. A value of that tree is \<open>undefined\<close>,
  \<open>null\<close>, a string, a number, an array or an object. An object is an association list:
  the serialiser writes the properties in insertion order, so the order is part of the value.

  A number is the rational that its literal denotes; zoom levels and widths are integers.
  JavaScript computes with doubles, so the result of an addition, a subtraction or a
  division is rounded to the nearest double (section Numbers).

  \<open>Join xs sep\<close> is the string \<^verbatim>\<open>xs.join(sep)\<close> of an array of numbers. How the runtime
  prints a double is not part of the source, so that string is kept as this term.
\<close>

datatype json =
    Undefined
  | Null
  | Str string
  | Num rat
  | Join "rat list" string
  | Arr "json list"
  | Obj "(string \<times> json) list"

datatype error = Error string | RangeError

text \<open>
  \<^verbatim>\<open>new Error(msg)\<close> thrown by a builder is \<open>Inl (Error msg)\<close>, the \<open>RangeError\<close> that
  \<^verbatim>\<open>Array(length)\<close> raises is \<open>Inl RangeError\<close>; a returned value is \<open>Inr\<close>.
\<close>

definition and_then :: "error + 'a \<Rightarrow> ('a \<Rightarrow> error + 'b) \<Rightarrow> error + 'b" where
  "and_then r f = (case r of Inl e \<Rightarrow> Inl e | Inr v \<Rightarrow> f v)"

text \<open>A string-typed option of the caller is absent (\<open>undefined\<close>) or a string.\<close>

definition of_string :: "string option \<Rightarrow> json" where
  "of_string s = (case s of None \<Rightarrow> Undefined | Some t \<Rightarrow> Str t)"

text \<open>\<^verbatim>\<open>!s\<close>: \<open>undefined\<close> and the empty string are falsy, every other string is truthy.\<close>

definition falsy :: "string option \<Rightarrow> bool" where
  "falsy s = (case s of None \<Rightarrow> True | Some t \<Rightarrow> t = [])"

text \<open>\<^verbatim>\<open>s || d\<close> on a string and \<^verbatim>\<open>n || d\<close> on a number: \<open>0\<close> is falsy.\<close>

definition or_string :: "string option \<Rightarrow> string \<Rightarrow> string" where
  "or_string s d = (if falsy s then d else (case s of None \<Rightarrow> d | Some t \<Rightarrow> t))"

definition or_number :: "int option \<Rightarrow> int \<Rightarrow> int" where
  "or_number n d = (case n of None \<Rightarrow> d | Some k \<Rightarrow> if k = 0 then d else k)"

text \<open>\<^verbatim>\<open>'image/' + s\<close> coerces \<open>s\<close> to a string.\<close>

definition to_string :: "string option \<Rightarrow> string" where
  "to_string s = (case s of None \<Rightarrow> ''undefined'' | Some t \<Rightarrow> t)"

text \<open>\<^verbatim>\<open>obj.key\<close>: the value of the first property of that name, \<open>undefined\<close> when there is none.\<close>

fun lookup :: "(string \<times> json) list \<Rightarrow> string \<Rightarrow> json" where
  "lookup [] k = Undefined"
| "lookup ((k', v) # kvs) k = (if k' = k then v else lookup kvs k)"

fun get :: "json \<Rightarrow> string \<Rightarrow> json" where
  "get (Obj kvs) k = lookup kvs k"
| "get _ k = Undefined"

text \<open>\<^verbatim>\<open>arr[i]\<close> on an array of the tree and on an array of numbers.\<close>

fun item :: "json \<Rightarrow> nat \<Rightarrow> json" where
  "item (Arr xs) i = (if i < length xs then xs ! i else Undefined)"
| "item _ i = Undefined"

definition number_at :: "rat list \<Rightarrow> nat \<Rightarrow> json" where
  "number_at xs i = (if i < length xs then Num (xs ! i) else Undefined)"

text \<open>\<^verbatim>\<open>Object.assign(target, source)\<close>: a property of the source replaces the target's
  property of that name in place, or is appended.\<close>

fun put :: "string \<Rightarrow> json \<Rightarrow> (string \<times> json) list \<Rightarrow> (string \<times> json) list" where
  "put k v [] = [(k, v)]"
| "put k v ((k', v') # kvs) = (if k' = k then (k, v) # kvs else (k', v') # put k v kvs)"

fun assign :: "json \<Rightarrow> json \<Rightarrow> json" where
  "assign (Obj target) (Obj source) = Obj (foldl (\<lambda>acc (k, v). put k v acc) target source)"
| "assign target _ = target"

section \<open>Numbers\<close>

text \<open>
  \<open>double x\<close> is the double nearest to \<open>x\<close>: with \<open>2^e \<le> |x| < 2^(e+1)\<close> the doubles around
  \<open>x\<close> are the multiples of \<open>2^(e-52)\<close>, and a tie goes to the even multiple. \<open>bits n\<close> is
  the number of binary digits of a positive integer, which gives the exponent \<open>e\<close>.
  \<open>nearest n\<close> is the double nearest to an integer, again an integer. Doubles of the
  normal range are modelled; a result beyond the largest double (\<open>Infinity\<close> in JavaScript)
  stays a large number. In \<open>range\<close> such a result is never stored in the array, and as a
  length it is rejected by \<^verbatim>\<open>Array\<close> either way.
\<close>

definition round_half_even :: "rat \<Rightarrow> int" where
  "round_half_even x =
     (let f = \<lfloor>x\<rfloor>; d = x - of_int f
      in if d < 1 / 2 then f else if 1 / 2 < d then f + 1 else if even f then f else f + 1)"

function bits :: "int \<Rightarrow> nat" where
  "bits n = (if n \<le> 0 then 0 else Suc (bits (n div 2)))"
  by pat_completeness auto
termination
  by (relation "measure nat") auto

declare bits.simps [simp del]

definition exponent :: "rat \<Rightarrow> int" where
  "exponent x =
     (if 1 \<le> x then int (bits \<lfloor>x\<rfloor>) - 1 else - int (bits (\<lceil>1 / x\<rceil> - 1)))"

definition double :: "rat \<Rightarrow> rat" where
  "double x =
     (if x = 0 then 0
      else let e = exponent \<bar>x\<bar>; ulp = 2 powi (e - 52)
           in sgn x * of_int (round_half_even (\<bar>x\<bar> / ulp)) * ulp)"

definition nearest :: "int \<Rightarrow> int" where
  "nearest n = \<lfloor>double (of_int n)\<rfloor>"

text \<open>\<^verbatim>\<open>Array(n)\<close> raises \<open>RangeError\<close> unless \<open>n\<close> is an array length.\<close>

definition array_length :: "int \<Rightarrow> bool" where
  "array_length n \<longleftrightarrow> 0 \<le> n \<and> n < 2 ^ 32"

section \<open>Options\<close>

text \<open>
  The options object of the caller. A property is absent (\<open>None\<close>, the value
  \<open>undefined\<close>) or holds a value of the type that \<^verbatim>\<open>index.d.ts\<close> declares for it; a
  format is any string, since the builders compare it with \<open>jpg\<close> only. \<open>exception\<close> reads
  \<open>spaces\<close> alone, \<open>getCapabilities\<close> the whole record.
\<close>

record ExceptionOptions =
  spaces :: "int option"

record Options = ExceptionOptions +
  title :: "string option"
  url :: "string option"
  format :: "string option"
  "identifier" :: "string option"
  minzoom :: "int option"
  maxzoom :: "int option"
  abstract :: "string option"
  bbox :: "rat list option"
  "keywords" :: "string list option"
  accessConstraints :: "string option"
  fees :: "string option"

text \<open>\<^verbatim>\<open>options || {}\<close>: the object with no property.\<close>

definition no_exception_options :: ExceptionOptions where
  "no_exception_options = \<lparr>spaces = None\<rparr>"

definition no_options :: Options where
  "no_options = \<lparr>spaces = None, title = None, url = None, format = None, identifier = None,
     minzoom = None, maxzoom = None, abstract = None, bbox = None, keywords = None,
     accessConstraints = None, fees = None\<rparr>"

section \<open>Constants\<close>

definition SPACES :: int where
  "SPACES = 2"

definition BBOX :: "rat list" where
  "BBOX = [-180.0, -85.0511287798, 180.0, 85.0511287798]"

definition BBOX_METERS :: "rat list" where
  "BBOX_METERS = [-20037508.3428, -20037508.3428, 20037508.3428, 20037508.3428]"

section \<open>Utilities\<close>

subsection \<open>clean\<close>

text \<open>
  \<^verbatim>\<open>JSON.parse(JSON.stringify(obj))\<close>: a property whose value is \<open>undefined\<close> is left out of
  its object, an \<open>undefined\<close> element of an array becomes \<open>null\<close>, every other value comes
  back as it was. The builders apply it to object literals only; the value \<open>undefined\<close> itself,
  which \<^verbatim>\<open>JSON.parse\<close> would refuse, is never passed.
\<close>

primrec clean :: "json \<Rightarrow> json" where
  "clean Undefined = Undefined"
| "clean Null = Null"
| "clean (Str s) = Str s"
| "clean (Num n) = Num n"
| "clean (Join xs sep) = Join xs sep"
| "clean (Arr xs) = Arr (map (\<lambda>v. if v = Undefined then Null else v) (map clean xs))"
| "clean (Obj kvs) = Obj (filter (\<lambda>(k, v). v \<noteq> Undefined) (map (map_prod id clean) kvs))"

subsection \<open>normalize\<close>

text \<open>
  \<^verbatim>\<open>url.replace(/$\//, '')\<close>. The pattern is a sequence of two terms, the end-of-input
  assertion \<open>$\<close> and the character \<open>/\<close>. \<open>matches\<close> runs a pattern at the start of a
  string and returns what is left after the match; \<open>replace\<close> tries every start position
  from the left, the end of the string included, and rewrites the first match.
\<close>

datatype regex_term = EndOfInput | Character char

fun matches :: "regex_term list \<Rightarrow> string \<Rightarrow> string option" where
  "matches [] s = Some s"
| "matches (EndOfInput # r) s = (if s = [] then matches r s else None)"
| "matches (Character c # r) [] = None"
| "matches (Character c # r) (x # xs) = (if x = c then matches r xs else None)"

fun replace :: "regex_term list \<Rightarrow> string \<Rightarrow> string \<Rightarrow> string" where
  "replace r new [] = (case matches r [] of Some rest \<Rightarrow> new @ rest | None \<Rightarrow> [])"
| "replace r new (x # xs) =
     (case matches r (x # xs) of Some rest \<Rightarrow> new @ rest | None \<Rightarrow> x # replace r new xs)"

definition normalize_url :: "string option \<Rightarrow> string option" where
  "normalize_url u =
     (if falsy u then u
      else map_option (replace [EndOfInput, Character CHR ''/''] []) u)"

subsection \<open>range\<close>

text \<open>
  \<open>range_loop\<close> is the \<^verbatim>\<open>for\<close> loop that fills the array: \<open>length\<close> entries, the first
  \<open>start\<close>, each next one the double of \<^verbatim>\<open>start += step\<close>. \<open>range_js\<close> is
  \<^verbatim>\<open>range(start, stop, step)\<close> with \<open>stop\<close> and \<open>step\<close> optional; an omitted or zero \<open>step\<close>
  becomes \<open>-1\<close> when the stop lies below the start and \<open>1\<close> otherwise, so the division is
  never by zero. \<^verbatim>\<open>Array(length)\<close> raises \<open>RangeError\<close> for a length of \<open>2^32\<close> or more.
\<close>

fun range_loop :: "nat \<Rightarrow> int \<Rightarrow> int \<Rightarrow> int list" where
  "range_loop 0 start step = []"
| "range_loop (Suc n) start step = start # range_loop n (nearest (start + step)) step"

definition range_js :: "int \<Rightarrow> int option \<Rightarrow> int option \<Rightarrow> error + int list" where
  "range_js start0 stop0 step0 =
     (let (start, stop) = (case stop0 of None \<Rightarrow> (0, start0) | Some s \<Rightarrow> (start0, s));
          step = or_number step0 (if stop < start then - 1 else 1);
          length = max \<lceil>double (of_int (nearest (stop - start)) / of_int step)\<rceil> 0
      in if array_length length then Inr (range_loop (nat length) start step)
         else Inl RangeError)"

subsection \<open>resolution and resolutions\<close>

text \<open>
  Modelled from the spec: \<open>resolution\<close> is the function of the library global-mercator,
  which is not part of the repository. The spec gives it for a 256 pixel tile as
  \<open>circumference / (256 * 2^zoom)\<close> with the circumference \<open>2 * 20037508.3428\<close>.
\<close>

definition circumference :: rat where
  "circumference = 2 * 20037508.3428"

definition resolution :: "int \<Rightarrow> rat" where
  "resolution zoom = circumference / (256 * 2 powi zoom)"

definition resolutions :: "int \<Rightarrow> int \<Rightarrow> error + rat list" where
  "resolutions zmin zmax =
     and_then (range_js zmin (Some (nearest (zmax + 1))) None) (\<lambda>zooms.
     Inr (map (\<lambda>zoom. resolution zoom) zooms))"

section \<open>Document tree builders\<close>

definition Keywords :: "string list option \<Rightarrow> json" where
  "Keywords ks =
     (let keywords = (case ks of None \<Rightarrow> [] | Some l \<Rightarrow> l) in
      Obj [(''KeywordList'', Obj
        [(''Keyword'', Arr (map (\<lambda>keyword. Obj [(''_text'', Str keyword)]) keywords))])])"

definition Service :: "Options \<Rightarrow> error + json" where
  "Service options =
     (let title = title options; url = url options in
      if falsy title then Inl (Error ''options.title is required'')
      else if falsy url then Inl (Error ''options.url is required'')
      else
        let abstract = abstract options;
            accessConstraints = or_string (accessConstraints options) ''none'';
            fees = or_string (fees options) ''none'';
            keywords = keywords options
        in Inr (clean (Obj [(''Service'', Obj
            [(''Name'', Obj [(''_text'', Str ''OGC:WMS'')]),
             (''Title'', Obj [(''_text'', of_string title)]),
             (''Abstract'', Obj [(''_text'', of_string abstract)]),
             (''KeywordList'',
                (case keywords of None \<Rightarrow> Undefined
                 | Some ks \<Rightarrow> get (Keywords (Some ks)) ''KeywordList'')),
             (''OnlineResource'', Obj [(''_attributes'', Obj
                [(''xmlns:xlink'', Str ''http://www.w3.org/1999/xlink''),
                 (''xlink:type'', Str ''simple''),
                 (''xlink:href'', of_string url)])]),
             (''Fees'', Obj [(''_text'', Str fees)]),
             (''AccessConstraints'', Obj [(''_text'', Str accessConstraints)])])])))"

definition DCPType :: "string option \<Rightarrow> error + json" where
  "DCPType u =
     (if falsy u then Inl (Error ''url is required'')
      else Inr (Obj [(''HTTP'', Obj [(''Get'', Obj [(''OnlineResource'', Obj
        [(''_attributes'', Obj
          [(''xmlns:xlink'', Str ''http://www.w3.org/1999/xlink''),
           (''xlink:type'', Str ''simple''),
           (''xlink:href'', of_string u)])])])])]))"

definition Request :: "Options \<Rightarrow> error + json" where
  "Request options =
     (if falsy (url options) then Inl (Error ''options.url is required'')
      else if falsy (format options) then Inl (Error ''options.format is required'')
      else
        let url = url options;
            format = (if format options = Some ''jpg'' then Some ''jpeg'' else format options)
        in and_then (DCPType url) (\<lambda>dcp1.
           and_then (DCPType url) (\<lambda>dcp2.
           and_then (DCPType url) (\<lambda>dcp3.
           Inr (Obj [(''Request'', Obj
             [(''GetCapabilities'', Obj
                [(''Format'', Obj [(''_text'', Str ''application/vnd.ogc.wms_xml'')]),
                 (''DCPType'', dcp1)]),
              (''GetMap'', Obj
                [(''Format'', Obj [(''_text'', Str (''image/'' @ to_string format))]),
                 (''DCPType'', dcp2)]),
              (''GetFeatureInfo'', Obj
                [(''Format'', Arr
                   [Obj [(''_text'', Str ''application/vnd.ogc.gml'')],
                    Obj [(''_text'', Str ''text/plain'')],
                    Obj [(''_text'', Str ''text/html'')]]),
                 (''DCPType'', dcp3)])])])))))"

definition BoundingBox :: "rat list option \<Rightarrow> string option \<Rightarrow> error + json" where
  "BoundingBox b srs =
     (case b of
        None \<Rightarrow> Inl (Error ''bbox is required'')
      | Some box \<Rightarrow>
          let west = number_at box 0;
              south = number_at box 1;
              east = number_at box 2;
              north = number_at box 3
          in Inr (clean (Obj [(''_attributes'', Obj
               [(''SRS'', of_string srs),
                (''minx'', west),
                (''miny'', south),
                (''maxx'', east),
                (''maxy'', north)])])))"

definition TileSet :: "Options \<Rightarrow> error + json" where
  "TileSet options =
     (if falsy (format options) then Inl (Error ''options.format is required'')
      else if identifier options = None then Inl (Error ''options.identifier is required'')
      else case minzoom options of
        None \<Rightarrow> Inl (Error ''options.minzoom is required'')
      | Some zmin \<Rightarrow>
     (case maxzoom options of
        None \<Rightarrow> Inl (Error ''options.maxzoom is required'')
      | Some zmax \<Rightarrow>
        let format = (if format options = Some ''jpg'' then Some ''jpeg'' else format options)
        in and_then (BoundingBox (Some BBOX_METERS) (Some ''EPSG:3857'')) (\<lambda>box.
           and_then (resolutions zmin zmax) (\<lambda>zooms.
           Inr (Obj [(''TileSet'', Obj
             [(''SRS'', Obj [(''_text'', Str ''EPSG:3857'')]),
              (''BoundingBox'', box),
              (''Resolutions'', Obj [(''_text'', Join zooms '' '')]),
              (''Width'', Obj [(''_text'', Str ''256'')]),
              (''Height'', Obj [(''_text'', Str ''256'')]),
              (''Format'', Obj [(''_text'', Str (''image/'' @ to_string format))]),
              (''Layers'', Obj [(''_text'', of_string (identifier options))])])])))))"

definition Layer :: "Options \<Rightarrow> error + json" where
  "Layer options =
     (if identifier options = None then Inl (Error ''identifier is required'')
      else if title options = None then Inl (Error ''title is required'')
      else if url options = None then Inl (Error ''url is required'')
      else
        and_then (BoundingBox (Some BBOX_METERS) (Some ''EPSG:900913'')) (\<lambda>box1.
        and_then (BoundingBox (Some BBOX) (Some ''EPSG:4326'')) (\<lambda>box2.
        and_then (BoundingBox (Some BBOX_METERS) (Some ''EPSG:3857'')) (\<lambda>box3.
        let BoundingBoxes = [box1, box2, box3] in
        and_then (BoundingBox (Some BBOX) None) (\<lambda>latlon.
        and_then (BoundingBox (Some BBOX) None) (\<lambda>latlon_sub.
        Inr (Obj [(''Layer'', Obj
          [(''Title'', Obj [(''_text'', of_string (title options))]),
           (''SRS'', Arr
              [Obj [(''_text'', Str ''EPSG:900913'')],
               Obj [(''_text'', Str ''EPSG:4326'')],
               Obj [(''_text'', Str ''CRS:84'')],
               Obj [(''_text'', Str ''EPSG:3857'')]]),
           (''LatLonBoundingBox'', latlon),
           (''BoundingBox'', Arr BoundingBoxes),
           (''Layer'', Obj
              [(''Name'', Obj [(''_text'', of_string (identifier options))]),
               (''Title'', Obj [(''_text'', of_string (title options))]),
               (''LatLonBoundingBox'', latlon_sub),
               (''BoundingBox'', Arr BoundingBoxes)])])])))))))"

section \<open>Document assembler\<close>

definition Capability :: "Options \<Rightarrow> error + json" where
  "Capability options =
     and_then (Request options) (\<lambda>request.
     and_then (TileSet options) (\<lambda>tileset.
     and_then (Layer options) (\<lambda>layer.
     Inr (Obj [(''Capability'', Obj
       [(''Request'', get request ''Request''),
        (''Exception'', Obj [(''Format'', Arr
           [Obj [(''_text'', Str ''application/vnd.ogc.se_xml'')],
            Obj [(''_text'', Str ''application/vnd.ogc.se_inimage'')],
            Obj [(''_text'', Str ''application/vnd.ogc.se_blank'')]])]),
        (''VendorSpecificCapabilities'', tileset),
        (''Layer'', get layer ''Layer'')])]))))"

definition Capabilities :: "Options \<Rightarrow> error + json" where
  "Capabilities options =
     (let url = normalize_url (url options) in
      if falsy url then Inl (Error ''<url> is required'')
      else
        and_then (Service options) (\<lambda>service.
        and_then (Capability options) (\<lambda>capability.
        Inr (Obj [(''WMT_MS_Capabilities'',
          assign (assign (Obj [(''_attributes'', Obj [(''version'', Str ''1.1.0'')])])
            service) capability)]))))"

section \<open>Serializer and public API\<close>

text \<open>
  Both entry points end with \<^verbatim>\<open>convert.js2xml(json, {compact: true, spaces: spaces})\<close>, a
  call of the library xml-js, which is not part of the repository. The model keeps the call:
  \<open>Inr (js2xml json compact spaces)\<close> says that no builder raised and that the library is
  called with these arguments. What the call returns is not modelled, and the call can raise:
  for a numeric width the library builds the indentation with \<^verbatim>\<open>Array(spaces + 1)\<close>, which
  raises \<open>RangeError\<close> unless \<open>spaces + 1\<close> is an array length, so it raises for every width
  of \<open>-2\<close> or less (rounding the sum to a double does not change on which side of the
  bounds it lies). \<open>js2xml_raises\<close> is this one check and \<open>raises\<close> the failure of an entry
  point that follows from it. A call that passes the check may still raise inside the
  library, so no theorem says that a call returns.
\<close>

datatype xml = js2xml (document: json) (compact: bool) (indentation: int)

definition js2xml_raises :: "xml \<Rightarrow> bool" where
  "js2xml_raises x \<longleftrightarrow> \<not> array_length (indentation x + 1)"

definition raises :: "error + xml \<Rightarrow> bool" where
  "raises r = (case r of Inl e \<Rightarrow> True | Inr x \<Rightarrow> js2xml_raises x)"

definition getCapabilities :: "Options option \<Rightarrow> error + xml" where
  "getCapabilities options0 =
     (let options = (case options0 of None \<Rightarrow> no_options | Some given \<Rightarrow> given);
          spaces = or_number (spaces options) SPACES
      in and_then (Capabilities options) (\<lambda>capabilities.
         let json = Obj
           [(''_declaration'', Obj [(''_attributes'', Obj
               [(''version'', Str ''1.0''), (''encoding'', Str ''utf-8'')])]),
            (''WMT_MS_Capabilities'', get capabilities ''WMT_MS_Capabilities'')]
         in Inr (js2xml json True spaces)))"

definition exception :: "string option \<Rightarrow> ExceptionOptions option \<Rightarrow> error + xml" where
  "exception message0 options0 =
     (let message = or_string message0 ''foo'';
          options = (case options0 of None \<Rightarrow> no_exception_options | Some given \<Rightarrow> given);
          spaces = or_number (spaces options) SPACES;
          json = Obj
           [(''_declaration'', Obj [(''_attributes'', Obj
               [(''version'', Str ''1.0''), (''encoding'', Str ''utf-8'')])]),
            (''ServiceExceptionReport'', Obj
               [(''_attributes'', Obj [(''version'', Str ''1.1.1'')]),
                (''ServiceException'', Obj [(''_text'', Str message)])])]
      in Inr (js2xml json True spaces))"

section \<open>Reading the emitted tree\<close>

text \<open>
  The theorems below read the tree that an entry point hands to the serialiser: the value
  under a path of property names, an attribute of an element, the four bounds of a bounding
  box element, the elements of an array.
\<close>

definition path :: "json \<Rightarrow> string list \<Rightarrow> json" where
  "path v ks = foldl get v ks"

definition attribute :: "json \<Rightarrow> string \<Rightarrow> json" where
  "attribute e a = get (get e ''_attributes'') a"

definition bounds :: "json \<Rightarrow> json list" where
  "bounds e = map (attribute e) [''minx'', ''miny'', ''maxx'', ''maxy'']"

fun elements :: "json \<Rightarrow> json list" where
  "elements (Arr xs) = xs"
| "elements _ = []"

definition emitted :: "error + xml \<Rightarrow> json" where
  "emitted r = (case r of Inl e \<Rightarrow> Undefined | Inr x \<Rightarrow> document x)"

definition indentation_of :: "error + xml \<Rightarrow> int option" where
  "indentation_of r = (case r of Inl e \<Rightarrow> None | Inr x \<Rightarrow> Some (indentation x))"

text \<open>The options of the repository's test, the abstract in ASCII.\<close>

definition tile_service :: Options where
  "tile_service = \<lparr>spaces = Some 2, title = Some ''Tile Service'',
     url = Some ''http://localhost:80/WMTS'', format = Some ''jpg'', identifier = Some ''osm'',
     minzoom = Some 10, maxzoom = Some 18, abstract = Some ''OSM data'',
     bbox = Some [-180, -85, 180, 85], keywords = Some [''world'', ''imagery'', ''wms-c''],
     accessConstraints = None, fees = None\<rparr>"

section \<open>Facts about the utilities\<close>

lemma and_then_simps [simp]:
  "and_then (Inl e) f = Inl e" "and_then (Inr v) f = f v"
  by (simp_all add: and_then_def)

lemma and_then_Inr_iff: "and_then r f = Inr y \<longleftrightarrow> (\<exists>v. r = Inr v \<and> f v = Inr y)"
  by (cases r) simp_all

lemma falsy_None [simp]: "falsy None"
  by (simp add: falsy_def)

lemma falsy_Some [simp]: "falsy (Some s) \<longleftrightarrow> s = []"
  by (simp add: falsy_def)

lemma matches_end_slash: "matches [EndOfInput, Character CHR ''/''] s = None"
  by (cases s) simp_all

lemma replace_end_slash: "replace [EndOfInput, Character CHR ''/''] new s = s"
  by (induction s) (simp_all add: matches_end_slash)

lemma normalize_url_falsy [simp]: "falsy (normalize_url u) \<longleftrightarrow> falsy u"
  by (cases u) (simp_all add: normalize_url_def replace_end_slash)

subsection \<open>Doubles\<close>

text \<open>An integer of magnitude up to \<open>2^53\<close> is a double: rounding leaves it as it is.\<close>

lemma round_half_even_of_int: "round_half_even (of_int k) = k"
  by (simp add: round_half_even_def)

lemma bits_le: "n < 2 ^ k \<Longrightarrow> bits n \<le> k"
proof (induction k arbitrary: n)
  case 0
  then show ?case by (simp add: bits.simps)
next
  case (Suc k)
  show ?case
  proof (cases "n \<le> 0")
    case True
    then show ?thesis by (simp add: bits.simps)
  next
    case False
    from Suc.prems have "n div 2 < 2 ^ k" by simp
    then have "bits (n div 2) \<le> k" by (rule Suc.IH)
    with False show ?thesis by (subst bits.simps) simp
  qed
qed

lemma bits_2_53: "bits 9007199254740992 = 54"
  by code_simp

lemma scaled_exact:
  assumes "e \<le> 52"
  shows "of_int (round_half_even (of_int a / 2 powi (e - 52))) * 2 powi (e - 52) = (of_int a :: rat)"
proof -
  define k where "k = nat (52 - e)"
  with assms have e: "e - 52 = - int k" by simp
  have "(of_int a :: rat) / 2 powi (e - 52) = of_int (a * 2 ^ k)"
    by (simp add: e power_int_minus field_simps)
  then have "round_half_even (of_int a / 2 powi (e - 52)) = a * 2 ^ k"
    by (simp only: round_half_even_of_int)
  then show ?thesis
    by (simp add: e power_int_minus)
qed

lemma double_of_positive:
  assumes "0 < a" "a \<le> 2 ^ 53"
  shows "of_int (round_half_even (of_int a / 2 powi (exponent (of_int a) - 52))) *
      2 powi (exponent (of_int a) - 52) = (of_int a :: rat)"
proof (cases "a = 2 ^ 53")
  case True
  have "exponent (of_int a) = 53"
    unfolding True by (simp add: exponent_def bits_2_53)
  then show ?thesis
    unfolding True by (simp add: round_half_even_def)
next
  case False
  with assms have "a < 2 ^ 53" by simp
  then have "bits a \<le> 53" by (rule bits_le)
  moreover from assms have "exponent (of_int a) = int (bits a) - 1"
    by (simp add: exponent_def)
  ultimately have "exponent (of_int a) \<le> 52" by simp
  then show ?thesis by (rule scaled_exact)
qed

lemma double_of_int:
  assumes "\<bar>n\<bar> \<le> 2 ^ 53"
  shows "double (of_int n) = of_int n"
proof (cases "n = 0")
  case True
  then show ?thesis by (simp add: double_def)
next
  case False
  then have a: "0 < \<bar>n\<bar>" by simp
  have abs: "\<bar>of_int n :: rat\<bar> = of_int \<bar>n\<bar>" by simp
  have "double (of_int n) = sgn (of_int n) * (of_int \<bar>n\<bar> :: rat)"
    using False double_of_positive [OF a assms]
    by (simp only: double_def Let_def abs of_int_eq_0_iff if_False mult.assoc)
  also have "\<dots> = of_int n"
    by (simp add: sgn_if)
  finally show ?thesis .
qed

lemma nearest_exact: "\<bar>n\<bar> \<le> 2 ^ 53 \<Longrightarrow> nearest n = n"
  by (simp add: nearest_def double_of_int)

lemma nearest_2_53_plus_1: "nearest 9007199254740993 = 9007199254740992"
  by code_simp

subsection \<open>range and resolutions\<close>

lemma range_loop_up:
  assumes "\<bar>start\<bar> \<le> 2 ^ 53" "\<bar>start + int n\<bar> \<le> 2 ^ 53"
  shows "range_loop n start 1 = map (\<lambda>i. start + int i) [0..<n]"
  using assms
proof (induction n arbitrary: start)
  case 0
  show ?case by simp
next
  case (Suc n)
  from Suc.prems have b: "\<bar>start + 1\<bar> \<le> 2 ^ 53" by simp
  moreover from Suc.prems have "\<bar>start + 1 + int n\<bar> \<le> 2 ^ 53" by (simp add: add.assoc)
  ultimately have "range_loop n (start + 1) 1 = map (\<lambda>i. start + 1 + int i) [0..<n]"
    by (rule Suc.IH)
  moreover have "map (\<lambda>i. start + int i) [0..<Suc n] =
        start # map (\<lambda>i. start + 1 + int i) [0..<n]"
    by (simp add: upt_conv_Cons map_Suc_upt [symmetric] algebra_simps del: upt_Suc)
  ultimately show ?case by (simp add: nearest_exact [OF b])
qed

lemma range_loop_down:
  assumes "\<bar>start\<bar> \<le> 2 ^ 53" "\<bar>start - int n\<bar> \<le> 2 ^ 53"
  shows "range_loop n start (- 1) = map (\<lambda>i. start - int i) [0..<n]"
  using assms
proof (induction n arbitrary: start)
  case 0
  show ?case by simp
next
  case (Suc n)
  from Suc.prems have b: "\<bar>start - 1\<bar> \<le> 2 ^ 53" by simp
  moreover from Suc.prems have "\<bar>start - 1 - int n\<bar> \<le> 2 ^ 53" by (simp add: algebra_simps)
  ultimately have "range_loop n (start - 1) (- 1) = map (\<lambda>i. start - 1 - int i) [0..<n]"
    by (rule Suc.IH)
  moreover have "map (\<lambda>i. start - int i) [0..<Suc n] =
        start # map (\<lambda>i. start - 1 - int i) [0..<n]"
    by (simp add: upt_conv_Cons map_Suc_upt [symmetric] algebra_simps del: upt_Suc)
  ultimately show ?case using nearest_exact [OF b] by simp
qed

lemma range_length_up:
  assumes "0 \<le> d" "d \<le> 2 ^ 53"
  shows "max \<lceil>double (of_int (nearest d) / of_int 1)\<rceil> 0 = d"
  using assms by (simp add: nearest_exact double_of_int)

lemma range_length_down:
  assumes "d \<le> 0" "- (2 ^ 53) \<le> d"
  shows "max \<lceil>double (of_int (nearest d) / of_int (- 1))\<rceil> 0 = - d"
proof -
  from assms have "\<bar>d\<bar> \<le> 2 ^ 53" by simp
  then have "nearest d = d" by (rule nearest_exact)
  moreover have "(of_int d :: rat) / of_int (- 1) = of_int (- d)" by simp
  moreover from assms have "double (of_int (- d)) = of_int (- d)"
    by (intro double_of_int) simp
  ultimately show ?thesis using assms by (simp only: ceiling_of_int)
qed

lemma range_js_ascending:
  assumes "start \<le> stop" "\<bar>start\<bar> \<le> 2 ^ 53" "\<bar>stop\<bar> \<le> 2 ^ 53" "stop - start < 2 ^ 32"
  shows "range_js start (Some stop) None =
    Inr (map (\<lambda>i. start + int i) [0..<nat (stop - start)])"
proof -
  from assms have len: "max \<lceil>double (of_int (nearest (stop - start)) / of_int 1)\<rceil> 0 = stop - start"
    by (intro range_length_up) simp_all
  from assms have "range_loop (nat (stop - start)) start 1 =
      map (\<lambda>i. start + int i) [0..<nat (stop - start)]"
    by (intro range_loop_up) simp_all
  moreover from assms have "\<not> stop < start" by simp
  ultimately show ?thesis
    using assms unfolding range_js_def or_number_def
    by (simp only: Let_def option.case prod.case if_False len) (simp add: array_length_def)
qed

lemma range_js_descending:
  assumes "stop < start" "\<bar>start\<bar> \<le> 2 ^ 53" "\<bar>stop\<bar> \<le> 2 ^ 53" "start - stop < 2 ^ 32"
  shows "range_js start (Some stop) None =
    Inr (map (\<lambda>i. start - int i) [0..<nat (start - stop)])"
proof -
  from assms have len: "max \<lceil>double (of_int (nearest (stop - start)) / of_int (- 1))\<rceil> 0 = - (stop - start)"
    by (intro range_length_down) simp_all
  from assms have "range_loop (nat (start - stop)) start (- 1) =
      map (\<lambda>i. start - int i) [0..<nat (start - stop)]"
    by (intro range_loop_down) simp_all
  with assms show ?thesis
    unfolding range_js_def or_number_def
    by (simp only: Let_def option.case prod.case if_True len) (simp add: array_length_def)
qed

lemma range_js_too_long:
  assumes "2 ^ 32 \<le> \<bar>stop - start\<bar>" "\<bar>stop - start\<bar> \<le> 2 ^ 53"
  shows "range_js start (Some stop) None = Inl RangeError"
proof (cases "stop < start")
  case True
  with assms have "max \<lceil>double (of_int (nearest (stop - start)) / of_int (- 1))\<rceil> 0 = - (stop - start)"
    by (intro range_length_down) simp_all
  with True assms show ?thesis
    unfolding range_js_def or_number_def
    by (simp only: Let_def option.case prod.case if_True) (simp add: array_length_def)
next
  case False
  with assms have "max \<lceil>double (of_int (nearest (stop - start)) / of_int 1)\<rceil> 0 = stop - start"
    by (intro range_length_up) simp_all
  with False assms show ?thesis
    unfolding range_js_def or_number_def
    by (simp only: Let_def option.case prod.case if_False) (simp add: array_length_def)
qed

lemma resolutions_ascending:
  assumes "zmin \<le> zmax + 1" "- (2 ^ 53) \<le> zmin" "zmax < 2 ^ 53" "zmax + 1 - zmin < 2 ^ 32"
  shows "resolutions zmin zmax =
    Inr (map (\<lambda>i. resolution (zmin + int i)) [0..<nat (zmax + 1 - zmin)])"
proof -
  from assms have "nearest (zmax + 1) = zmax + 1"
    by (intro nearest_exact) simp
  moreover from assms have "range_js zmin (Some (zmax + 1)) None =
      Inr (map (\<lambda>i. zmin + int i) [0..<nat (zmax + 1 - zmin)])"
    by (intro range_js_ascending) simp_all
  ultimately show ?thesis
    by (simp add: resolutions_def comp_def)
qed

lemma resolutions_descending:
  assumes "zmax + 1 < zmin" "- (2 ^ 53) \<le> zmax" "zmin \<le> 2 ^ 53" "zmin - zmax - 1 < 2 ^ 32"
  shows "resolutions zmin zmax =
    Inr (map (\<lambda>i. resolution (zmin - int i)) [0..<nat (zmin - zmax - 1)])"
proof -
  from assms have "nearest (zmax + 1) = zmax + 1"
    by (intro nearest_exact) simp
  moreover from assms have "range_js zmin (Some (zmax + 1)) None =
      Inr (map (\<lambda>i. zmin - int i) [0..<nat (zmin - (zmax + 1))])"
    by (intro range_js_descending) simp_all
  ultimately show ?thesis
    by (simp add: resolutions_def comp_def algebra_simps)
qed

lemma resolutions_too_long:
  assumes "- (2 ^ 53) \<le> zmax" "zmax < 2 ^ 53"
    "2 ^ 32 \<le> \<bar>zmax + 1 - zmin\<bar>" "\<bar>zmax + 1 - zmin\<bar> \<le> 2 ^ 53"
  shows "resolutions zmin zmax = Inl RangeError"
proof -
  from assms have "nearest (zmax + 1) = zmax + 1"
    by (intro nearest_exact) simp
  moreover from assms have "range_js zmin (Some (zmax + 1)) None = Inl RangeError"
    by (intro range_js_too_long) simp_all
  ultimately show ?thesis
    by (simp add: resolutions_def)
qed

lemma resolutions_ok:
  assumes "\<bar>zmin\<bar> \<le> 2 ^ 53" "- (2 ^ 53) \<le> zmax" "zmax < 2 ^ 53" "\<bar>zmax + 1 - zmin\<bar> < 2 ^ 32"
  shows "\<exists>rs. resolutions zmin zmax = Inr rs"
proof (cases "zmin \<le> zmax + 1")
  case True
  with assms show ?thesis by (auto intro!: exI resolutions_ascending)
next
  case False
  with assms show ?thesis by (auto intro!: exI resolutions_descending)
qed

lemma resolution_strict: "resolution (z + 1) < resolution z"
proof -
  have pos: "(0::rat) < 2 powi z" by (simp add: zero_less_power_int)
  have "resolution (z + 1) = resolution z / 2"
    by (simp add: resolution_def power_int_add)
  moreover have "0 < resolution z"
    using pos by (simp add: resolution_def circumference_def)
  ultimately show ?thesis by simp
qed

lemma resolution_antimono: "a < b \<Longrightarrow> resolution b < resolution a"
proof (induction "nat (b - a)" arbitrary: b)
  case 0
  then show ?case by simp
next
  case (Suc n)
  show ?case
  proof (cases "a = b - 1")
    case True
    with resolution_strict [of a] show ?thesis by simp
  next
    case False
    with Suc.prems have "a < b - 1" by simp
    moreover from Suc.hyps have "n = nat (b - 1 - a)" by simp
    ultimately have "resolution (b - 1) < resolution a" by (rule Suc.hyps(1) [rotated])
    moreover have "resolution b < resolution (b - 1)"
      using resolution_strict [of "b - 1"] by simp
    ultimately show ?thesis by simp
  qed
qed

lemma resolutions_decreasing:
  assumes "resolutions zmin zmax = Inr rs" "zmin \<le> zmax + 1" "- (2 ^ 53) \<le> zmin"
    "zmax < 2 ^ 53" "zmax + 1 - zmin < 2 ^ 32"
  shows "sorted_wrt (\<lambda>x y. y < x) rs"
proof -
  from assms(2-5) assms(1) [symmetric]
  have "rs = map (\<lambda>i. resolution (zmin + int i)) [0..<nat (zmax + 1 - zmin)]"
    by (simp add: resolutions_ascending)
  then show ?thesis
    by (simp add: sorted_wrt_map sorted_wrt_iff_nth_less resolution_antimono)
qed

lemma resolutions_10_18:
  "resolutions 10 18 = Inr (map resolution [10, 11, 12, 13, 14, 15, 16, 17, 18])"
  by (simp add: resolutions_ascending upt_conv_Cons)

section \<open>Facts about the builders\<close>

lemma path_Cons: "path v (k # ks) = path (get v k) ks"
  by (simp add: path_def)

lemma path_append: "path v (ks @ ks') = path (path v ks) ks'"
  by (simp add: path_def)

lemma path_under: "path v ks = w \<Longrightarrow> path v (ks @ ks') = path w ks'"
  by (simp add: path_def)

lemma item_elements: "i < length (elements a) \<Longrightarrow> item a i = elements a ! i"
  by (cases a) simp_all

lemma BoundingBox_meters:
  "BoundingBox (Some BBOX_METERS) (Some srs) = Inr (Obj [(''_attributes'', Obj
     [(''SRS'', Str srs), (''minx'', Num (- 20037508.3428)), (''miny'', Num (- 20037508.3428)),
      (''maxx'', Num 20037508.3428), (''maxy'', Num 20037508.3428)])])"
  by (simp add: BoundingBox_def Let_def BBOX_METERS_def number_at_def of_string_def)

lemma BoundingBox_degrees:
  "BoundingBox (Some BBOX) (Some srs) = Inr (Obj [(''_attributes'', Obj
     [(''SRS'', Str srs), (''minx'', Num (- 180)), (''miny'', Num (- 85.0511287798)),
      (''maxx'', Num 180), (''maxy'', Num 85.0511287798)])])"
  by (simp add: BoundingBox_def Let_def BBOX_def number_at_def of_string_def)

lemma BoundingBox_latlon:
  "BoundingBox (Some BBOX) None = Inr (Obj [(''_attributes'', Obj
     [(''minx'', Num (- 180)), (''miny'', Num (- 85.0511287798)),
      (''maxx'', Num 180), (''maxy'', Num 85.0511287798)])])"
  by (simp add: BoundingBox_def Let_def BBOX_def number_at_def of_string_def)

lemmas BoundingBox_constants = BoundingBox_meters BoundingBox_degrees BoundingBox_latlon

lemma TileSet_Inr:
  assumes "TileSet opts = Inr t"
  shows "\<not> falsy (format opts) \<and> identifier opts \<noteq> None \<and> minzoom opts \<noteq> None \<and> maxzoom opts \<noteq> None"
  using assms by (auto simp: TileSet_def Let_def and_then_Inr_iff split: if_splits option.splits)

lemma TileSet_BoundingBox:
  assumes "TileSet opts = Inr t"
  shows "bounds (path t [''TileSet'', ''BoundingBox'']) = [Num (- 20037508.3428), Num (- 20037508.3428), Num 20037508.3428, Num 20037508.3428]"
    and "attribute (path t [''TileSet'', ''BoundingBox'']) ''SRS'' = Str ''EPSG:3857''"
  using assms
  by (auto simp: TileSet_def Let_def and_then_Inr_iff BoundingBox_meters path_def bounds_def attribute_def
      split: if_splits option.splits)

lemma TileSet_Format:
  assumes "TileSet opts = Inr t"
  shows "path t [''TileSet'', ''Format'', ''_text''] =
      Str (''image/'' @ to_string (if format opts = Some ''jpg'' then Some ''jpeg'' else format opts))"
    and "path t [''TileSet'', ''Layers'', ''_text''] = of_string (identifier opts)"
  using assms
  by (auto simp: TileSet_def Let_def and_then_Inr_iff BoundingBox_meters path_def split: if_splits option.splits)

lemma Layer_Inr:
  assumes "Layer opts = Inr l"
  shows "identifier opts \<noteq> None \<and> title opts \<noteq> None \<and> url opts \<noteq> None"
  using assms by (auto simp: Layer_def Let_def split: if_splits)

lemma Layer_boxes:
  assumes "Layer opts = Inr l"
  shows "map bounds (elements (path l [''Layer'', ''BoundingBox''])) = [[Num (- 20037508.3428), Num (- 20037508.3428), Num 20037508.3428, Num 20037508.3428], [Num (- 180), Num (- 85.0511287798), Num 180, Num 85.0511287798], [Num (- 20037508.3428), Num (- 20037508.3428), Num 20037508.3428, Num 20037508.3428]]"
   and "map (\<lambda>e. attribute e ''SRS'') (elements (path l [''Layer'', ''BoundingBox''])) = [Str ''EPSG:900913'', Str ''EPSG:4326'', Str ''EPSG:3857'']"
   and "bounds (path l [''Layer'', ''LatLonBoundingBox'']) = [Num (- 180), Num (- 85.0511287798), Num 180, Num 85.0511287798]"
   and "path l [''Layer'', ''Layer'', ''BoundingBox''] = path l [''Layer'', ''BoundingBox'']"
   and "path l [''Layer'', ''Layer'', ''LatLonBoundingBox''] = path l [''Layer'', ''LatLonBoundingBox'']"
   and "path l [''Layer'', ''Layer'', ''Name'', ''_text''] = of_string (identifier opts)"
  using assms
  by (auto simp: Layer_def Let_def BoundingBox_constants path_def bounds_def attribute_def 
      split: if_splits)


lemma Service_Inr:
  assumes "Service opts = Inr s"
  shows "\<not> falsy (title opts) \<and> \<not> falsy (url opts) \<and> (\<exists>sv. s = Obj [(''Service'', sv)])"
  using assms
  by (auto simp: Service_def Let_def split: if_splits)

lemma Service_ok:
  assumes "\<not> falsy (title opts)" "\<not> falsy (url opts)"
  shows "\<exists>sv. Service opts = Inr (Obj [(''Service'', sv)])"
  using assms
  by (auto simp: Service_def Let_def split: if_splits)

lemma Request_ok:
  assumes "\<not> falsy (url opts)" "\<not> falsy (format opts)"
  shows "\<exists>r. Request opts = Inr r"
  using assms by (simp add: Request_def DCPType_def Let_def)

lemma TileSet_ok:
  assumes "\<not> falsy (format opts)" "identifier opts \<noteq> None"
    "minzoom opts = Some zmin" "maxzoom opts = Some zmax" "resolutions zmin zmax = Inr rs"
  shows "\<exists>t. TileSet opts = Inr t"
  using assms by (auto simp: TileSet_def BoundingBox_meters Let_def)

lemma TileSet_RangeError:
  assumes "\<not> falsy (format opts)" "identifier opts \<noteq> None"
    "minzoom opts = Some zmin" "maxzoom opts = Some zmax" "resolutions zmin zmax = Inl e"
  shows "TileSet opts = Inl e"
  using assms by (auto simp: TileSet_def BoundingBox_meters Let_def)

lemma Layer_ok:
  assumes "identifier opts \<noteq> None" "title opts \<noteq> None" "url opts \<noteq> None"
  shows "\<exists>l. Layer opts = Inr l"
  using assms by (auto simp: Layer_def BoundingBox_constants Let_def)

section \<open>Facts about the assembled document\<close>

lemma getCapabilities_parts:
  assumes "getCapabilities (Some opts) = Inr x"
  shows "\<exists>r t l. Request opts = Inr r \<and> TileSet opts = Inr t \<and> Layer opts = Inr l \<and>
     path (document x) [''WMT_MS_Capabilities'', ''Capability'', ''Request''] = get r ''Request'' \<and>
     path (document x) [''WMT_MS_Capabilities'', ''Capability'', ''VendorSpecificCapabilities''] = t \<and>
     path (document x) [''WMT_MS_Capabilities'', ''Capability'', ''Layer''] = get l ''Layer'' \<and>
     indentation x = or_number (spaces opts) SPACES \<and> compact x"
proof -
  from assms obtain c where c: "Capabilities opts = Inr c"
    and x: "x = js2xml (Obj
           [(''_declaration'', Obj [(''_attributes'', Obj
               [(''version'', Str ''1.0''), (''encoding'', Str ''utf-8'')])]),
            (''WMT_MS_Capabilities'', get c ''WMT_MS_Capabilities'')]) True (or_number (spaces opts) SPACES)"
    by (auto simp: getCapabilities_def Let_def and_then_Inr_iff)
  from c obtain s cap where s: "Service opts = Inr s" and cap: "Capability opts = Inr cap"
    and c': "c = Obj [(''WMT_MS_Capabilities'',
          assign (assign (Obj [(''_attributes'', Obj [(''version'', Str ''1.1.0'')])]) s) cap)]"
    by (auto simp: Capabilities_def Let_def and_then_Inr_iff split: if_splits)
  from s obtain sv where sv: "s = Obj [(''Service'', sv)]"
    using Service_Inr by blast
  from cap obtain r t l where r: "Request opts = Inr r" and t: "TileSet opts = Inr t"
    and l: "Layer opts = Inr l"
    and cap': "cap = Obj [(''Capability'', Obj
       [(''Request'', get r ''Request''),
        (''Exception'', Obj [(''Format'', Arr
           [Obj [(''_text'', Str ''application/vnd.ogc.se_xml'')],
            Obj [(''_text'', Str ''application/vnd.ogc.se_inimage'')],
            Obj [(''_text'', Str ''application/vnd.ogc.se_blank'')]])]),
        (''VendorSpecificCapabilities'', t),
        (''Layer'', get l ''Layer'')])]"
    by (auto simp: Capability_def and_then_Inr_iff)
  show ?thesis
    using r t l by (simp add: x c' sv cap' path_def)
qed

lemma Capabilities_ok:
  assumes "\<not> falsy (url opts)" "\<not> falsy (title opts)" "\<not> falsy (format opts)"
    "identifier opts \<noteq> None" "minzoom opts = Some zmin" "maxzoom opts = Some zmax"
    "resolutions zmin zmax = Inr rs"
  shows "\<exists>c. Capabilities opts = Inr c"
proof -
  from assms obtain s where "Service opts = Inr s" using Service_ok by blast
  moreover from assms obtain r where "Request opts = Inr r" using Request_ok by blast
  moreover from assms obtain t where "TileSet opts = Inr t" using TileSet_ok by blast
  moreover from assms have "title opts \<noteq> None" "url opts \<noteq> None"
    by (auto simp: falsy_def split: option.splits)
  with assms obtain l where "Layer opts = Inr l" using Layer_ok by blast
  ultimately show ?thesis using assms(1)
    by (simp add: Capabilities_def Capability_def Let_def)
qed

lemma getCapabilities_ok:
  assumes "\<not> falsy (url opts)" "\<not> falsy (title opts)" "\<not> falsy (format opts)"
    "identifier opts \<noteq> None" "minzoom opts = Some zmin" "maxzoom opts = Some zmax"
    "resolutions zmin zmax = Inr rs"
  shows "\<exists>doc. getCapabilities (Some opts) = Inr (js2xml doc True (or_number (spaces opts) SPACES))"
proof -
  from assms obtain c where "Capabilities opts = Inr c" using Capabilities_ok by blast
  then show ?thesis by (simp add: getCapabilities_def Let_def)
qed

lemma getCapabilities_RangeError:
  assumes "\<not> falsy (url opts)" "\<not> falsy (title opts)" "\<not> falsy (format opts)"
    "identifier opts \<noteq> None" "minzoom opts = Some zmin" "maxzoom opts = Some zmax"
    "resolutions zmin zmax = Inl e"
  shows "getCapabilities (Some opts) = Inl e"
proof -
  from assms obtain s where "Service opts = Inr s" using Service_ok by blast
  moreover from assms obtain r where "Request opts = Inr r" using Request_ok by blast
  moreover have "TileSet opts = Inl e" by (rule TileSet_RangeError [OF assms(3-7)])
  ultimately show ?thesis using assms(1)
    by (simp add: getCapabilities_def Capabilities_def Capability_def Let_def)
qed

lemma getCapabilities_rejects:
  assumes "falsy (url opts) \<or> falsy (title opts) \<or> falsy (format opts) \<or>
    identifier opts = None \<or> minzoom opts = None \<or> maxzoom opts = None"
  shows "getCapabilities (Some opts) = Inl (Error (
      if falsy (url opts) then ''<url> is required''
      else if falsy (title opts) then ''options.title is required''
      else if falsy (format opts) then ''options.format is required''
      else if identifier opts = None then ''options.identifier is required''
      else if minzoom opts = None then ''options.minzoom is required''
      else ''options.maxzoom is required''))"
proof (cases "falsy (url opts) \<or> falsy (title opts)")
  case True
  then show ?thesis
    by (auto simp: getCapabilities_def Capabilities_def Service_def Let_def)
next
  case False
  then obtain s where s: "Service opts = Inr s" using Service_ok by blast
  show ?thesis
  proof (cases "falsy (format opts)")
    case True
    with False s show ?thesis
      by (simp add: getCapabilities_def Capabilities_def Capability_def Request_def Let_def)
  next
    case fmt: False
    with False obtain r where r: "Request opts = Inr r" using Request_ok by blast
    from assms False fmt have "identifier opts = None \<or> minzoom opts = None \<or> maxzoom opts = None"
      by auto
    with False fmt s r show ?thesis
      by (auto simp: getCapabilities_def Capabilities_def Capability_def TileSet_def Let_def
          split: option.splits)
  qed
qed

text \<open>No builder reads the \<open>bbox\<close> option.\<close>

lemma bbox_update_fields:
  "spaces (opts\<lparr>bbox := b\<rparr>) = spaces opts"
  "title (opts\<lparr>bbox := b\<rparr>) = title opts"
  "url (opts\<lparr>bbox := b\<rparr>) = url opts"
  "format (opts\<lparr>bbox := b\<rparr>) = format opts"
  "identifier (opts\<lparr>bbox := b\<rparr>) = identifier opts"
  "minzoom (opts\<lparr>bbox := b\<rparr>) = minzoom opts"
  "maxzoom (opts\<lparr>bbox := b\<rparr>) = maxzoom opts"
  "abstract (opts\<lparr>bbox := b\<rparr>) = abstract opts"
  "keywords (opts\<lparr>bbox := b\<rparr>) = keywords opts"
  "accessConstraints (opts\<lparr>bbox := b\<rparr>) = accessConstraints opts"
  "fees (opts\<lparr>bbox := b\<rparr>) = fees opts"
  by simp_all

lemma Service_bbox: "Service (opts\<lparr>bbox := b\<rparr>) = Service opts"
  unfolding Service_def bbox_update_fields by (rule refl)

lemma Request_bbox: "Request (opts\<lparr>bbox := b\<rparr>) = Request opts"
  unfolding Request_def bbox_update_fields by (rule refl)

lemma TileSet_bbox: "TileSet (opts\<lparr>bbox := b\<rparr>) = TileSet opts"
  unfolding TileSet_def bbox_update_fields by (rule refl)

lemma Layer_bbox: "Layer (opts\<lparr>bbox := b\<rparr>) = Layer opts"
  unfolding Layer_def bbox_update_fields by (rule refl)

lemma Capability_bbox: "Capability (opts\<lparr>bbox := b\<rparr>) = Capability opts"
  unfolding Capability_def Request_bbox TileSet_bbox Layer_bbox by (rule refl)

lemma Capabilities_bbox: "Capabilities (opts\<lparr>bbox := b\<rparr>) = Capabilities opts"
  unfolding Capabilities_def Service_bbox Capability_bbox bbox_update_fields by (rule refl)

lemma getCapabilities_bbox: "getCapabilities (Some (opts\<lparr>bbox := b\<rparr>)) = getCapabilities (Some opts)"
  by (simp add: getCapabilities_def Let_def Capabilities_bbox)

lemma tile_service_fields:
  "spaces tile_service = Some 2" "title tile_service = Some ''Tile Service''"
  "url tile_service = Some ''http://localhost:80/WMTS''" "format tile_service = Some ''jpg''"
  "identifier tile_service = Some ''osm''" "minzoom tile_service = Some 10"
  "maxzoom tile_service = Some 18"
  by (simp_all add: tile_service_def)

lemma getCapabilities_tile_service:
  "\<exists>doc. getCapabilities (Some (tile_service\<lparr>bbox := b\<rparr>)) = Inr (js2xml doc True 2)"
  using getCapabilities_ok [of "tile_service\<lparr>bbox := b\<rparr>" 10 18, OF _ _ _ _ _ _ resolutions_10_18]
  by (simp add: tile_service_fields or_number_def)

section \<open>The claims\<close>

subsection \<open>C1: the bbox option and the emitted bounding boxes\<close>

text \<open>
  C1, as amended. Whenever \<open>getCapabilities\<close> accepts the options, the document does not
  depend on the \<open>bbox\<close> option: every value of \<open>bbox\<close> gives the same result. In that
  document the TileSet BoundingBox carries the Web Mercator metres constant
  \<open>[-20037508.3428, -20037508.3428, 20037508.3428, 20037508.3428]\<close> as
  minx, miny, maxx, maxy. The Layer has three BoundingBox elements: those tagged EPSG:900913
  and EPSG:3857 carry the metres constant, the one tagged EPSG:4326 carries the degrees
  constant \<open>[-180, -85.0511287798, 180, 85.0511287798]\<close>, as does the LatLonBoundingBox.
  The sub-Layer repeats the Layer's BoundingBox elements and LatLonBoundingBox.
\<close>

theorem bbox_option_ignored:
  assumes "getCapabilities (Some opts) = Inr x"
  shows "getCapabilities (Some (opts\<lparr>bbox := b\<rparr>)) = Inr x \<and>
    bounds (path (document x) [''WMT_MS_Capabilities'', ''Capability'',
        ''VendorSpecificCapabilities'', ''TileSet'', ''BoundingBox'']) =
      [Num (- 20037508.3428), Num (- 20037508.3428), Num 20037508.3428, Num 20037508.3428] \<and>
    map (\<lambda>e. attribute e ''SRS'') (elements (path (document x)
        [''WMT_MS_Capabilities'', ''Capability'', ''Layer'', ''BoundingBox''])) =
      [Str ''EPSG:900913'', Str ''EPSG:4326'', Str ''EPSG:3857''] \<and>
    map bounds (elements (path (document x)
        [''WMT_MS_Capabilities'', ''Capability'', ''Layer'', ''BoundingBox''])) =
      [[Num (- 20037508.3428), Num (- 20037508.3428), Num 20037508.3428, Num 20037508.3428],
       [Num (- 180), Num (- 85.0511287798), Num 180, Num 85.0511287798],
       [Num (- 20037508.3428), Num (- 20037508.3428), Num 20037508.3428, Num 20037508.3428]] \<and>
    bounds (path (document x)
        [''WMT_MS_Capabilities'', ''Capability'', ''Layer'', ''LatLonBoundingBox'']) =
      [Num (- 180), Num (- 85.0511287798), Num 180, Num 85.0511287798] \<and>
    path (document x) [''WMT_MS_Capabilities'', ''Capability'', ''Layer'', ''Layer'', ''BoundingBox''] =
      path (document x) [''WMT_MS_Capabilities'', ''Capability'', ''Layer'', ''BoundingBox''] \<and>
    path (document x)
        [''WMT_MS_Capabilities'', ''Capability'', ''Layer'', ''Layer'', ''LatLonBoundingBox''] =
      path (document x) [''WMT_MS_Capabilities'', ''Capability'', ''Layer'', ''LatLonBoundingBox'']"
proof -
  from getCapabilities_parts [OF assms] obtain r t l
    where t: "TileSet opts = Inr t" and l: "Layer opts = Inr l"
      and pt: "path (document x) [''WMT_MS_Capabilities'', ''Capability'',
          ''VendorSpecificCapabilities''] = t"
      and pl: "path (document x) [''WMT_MS_Capabilities'', ''Capability'', ''Layer''] =
          get l ''Layer''"
    by blast
  have tile: "path (document x) ([''WMT_MS_Capabilities'', ''Capability'',
      ''VendorSpecificCapabilities''] @ ks) = path t ks" for ks
    by (rule path_under [OF pt])
  have layer: "path (document x) ([''WMT_MS_Capabilities'', ''Capability'', ''Layer''] @ ks) =
      path l (''Layer'' # ks)" for ks
    unfolding path_Cons [of l] by (rule path_under [OF pl])
  have "getCapabilities (Some (opts\<lparr>bbox := b\<rparr>)) = Inr x"
    using assms by (simp add: getCapabilities_bbox)
  moreover note TileSet_BoundingBox(1) [OF t] Layer_boxes(1-5) [OF l]
  ultimately show ?thesis
    using tile [of "[''TileSet'', ''BoundingBox'']"] layer [of "[''BoundingBox'']"]
      layer [of "[''LatLonBoundingBox'']"] layer [of "[''Layer'', ''BoundingBox'']"]
      layer [of "[''Layer'', ''LatLonBoundingBox'']"]
    by simp
qed

text \<open>
  The options of the test have \<open>bbox = [-180, -85, 180, 85]\<close>; replacing it by another
  box or removing it leaves the document as it is.
\<close>

theorem bbox_option_ignored_witness:
  "\<exists>x. getCapabilities (Some tile_service) = Inr x \<and>
    getCapabilities (Some (tile_service\<lparr>bbox := Some [0, 0, 1, 1]\<rparr>)) = Inr x \<and>
    getCapabilities (Some (tile_service\<lparr>bbox := None\<rparr>)) = Inr x \<and>
    bounds (path (document x) [''WMT_MS_Capabilities'', ''Capability'',
        ''VendorSpecificCapabilities'', ''TileSet'', ''BoundingBox'']) =
      [Num (- 20037508.3428), Num (- 20037508.3428), Num 20037508.3428, Num 20037508.3428] \<and>
    map bounds (elements (path (document x)
        [''WMT_MS_Capabilities'', ''Capability'', ''Layer'', ''BoundingBox''])) =
      [[Num (- 20037508.3428), Num (- 20037508.3428), Num 20037508.3428, Num 20037508.3428],
       [Num (- 180), Num (- 85.0511287798), Num 180, Num 85.0511287798],
       [Num (- 20037508.3428), Num (- 20037508.3428), Num 20037508.3428, Num 20037508.3428]]"
proof -
  obtain doc where ok: "getCapabilities (Some tile_service) = Inr (js2xml doc True 2)"
    using getCapabilities_tile_service [of "bbox tile_service"] by auto
  from bbox_option_ignored [OF ok, of "Some [0, 0, 1, 1]"] bbox_option_ignored [OF ok, of None] ok
  show ?thesis by simp
qed

text \<open>
  The claim as first stated gives the metres constant to every BoundingBox of the Layer.
  The second one, tagged EPSG:4326, carries degrees.
\<close>

theorem layer_bounding_box_counterexample:
  "bounds (item (path (emitted (getCapabilities (Some tile_service)))
      [''WMT_MS_Capabilities'', ''Capability'', ''Layer'', ''BoundingBox'']) 1) =
     [Num (- 180), Num (- 85.0511287798), Num 180, Num 85.0511287798] \<and>
   bounds (item (path (emitted (getCapabilities (Some tile_service)))
      [''WMT_MS_Capabilities'', ''Capability'', ''Layer'', ''BoundingBox'']) 1) \<noteq>
     [Num (- 20037508.3428), Num (- 20037508.3428), Num 20037508.3428, Num 20037508.3428]"
proof -
  obtain doc where ok: "getCapabilities (Some tile_service) = Inr (js2xml doc True 2)"
    using getCapabilities_tile_service [of "bbox tile_service"] by auto
  from getCapabilities_parts [OF ok] obtain l
    where l: "Layer tile_service = Inr l"
      and pl: "path doc [''WMT_MS_Capabilities'', ''Capability'', ''Layer''] = get l ''Layer''"
    by auto
  have "path doc ([''WMT_MS_Capabilities'', ''Capability'', ''Layer''] @ [''BoundingBox'']) =
      path l [''Layer'', ''BoundingBox'']"
    unfolding path_Cons [of l] by (rule path_under [OF pl])
  then have p: "path (emitted (getCapabilities (Some tile_service)))
      [''WMT_MS_Capabilities'', ''Capability'', ''Layer'', ''BoundingBox''] =
      path l [''Layer'', ''BoundingBox'']"
    by (simp add: ok emitted_def)
  let ?boxes = "elements (path l [''Layer'', ''BoundingBox''])"
  have m: "map bounds ?boxes =
      [[Num (- 20037508.3428), Num (- 20037508.3428), Num 20037508.3428, Num 20037508.3428],
       [Num (- 180), Num (- 85.0511287798), Num 180, Num 85.0511287798],
       [Num (- 20037508.3428), Num (- 20037508.3428), Num 20037508.3428, Num 20037508.3428]]"
    by (rule Layer_boxes(1) [OF l])
  then have len: "length ?boxes = 3"
    by (metis length_map length_Cons list.size(3) numeral_3_eq_3)
  then have "item (path l [''Layer'', ''BoundingBox'']) 1 = ?boxes ! 1"
    by (simp add: item_elements)
  moreover have "bounds (?boxes ! 1) = map bounds ?boxes ! 1"
    using len by simp
  ultimately have "bounds (item (path l [''Layer'', ''BoundingBox'']) 1) =
      [Num (- 180), Num (- 85.0511287798), Num 180, Num 85.0511287798]"
    by (simp add: m)
  then show ?thesis by (simp add: p)
qed

subsection \<open>C2: a missing required field\<close>

text \<open>
  C2, as amended. When one of \<open>title\<close>, \<open>url\<close>, \<open>format\<close>, \<open>identifier\<close>, \<open>minzoom\<close>,
  \<open>maxzoom\<close> is \<open>undefined\<close>, \<open>getCapabilities\<close> returns no document: it fails with a
  single error whose message names a required field. The checks run in the order url, title,
  format, identifier, minzoom, maxzoom, and the first one that rejects its field gives the
  message; the checks of url, title and format also reject the empty string. So the field
  named is the first one that is missing or, for url, title and format, empty; when no
  supplied url, title or format is empty, it is the first one that is missing. A call
  without options is a call with every field missing.
\<close>

theorem getCapabilities_missing_field:
  assumes "title opts = None \<or> url opts = None \<or> format opts = None \<or>
    identifier opts = None \<or> minzoom opts = None \<or> maxzoom opts = None"
  shows "getCapabilities (Some opts) = Inl (Error (
      if falsy (url opts) then ''<url> is required''
      else if falsy (title opts) then ''options.title is required''
      else if falsy (format opts) then ''options.format is required''
      else if identifier opts = None then ''options.identifier is required''
      else if minzoom opts = None then ''options.minzoom is required''
      else ''options.maxzoom is required'')) \<and>
    (url opts \<noteq> Some [] \<and> title opts \<noteq> Some [] \<and> format opts \<noteq> Some [] \<longrightarrow>
     getCapabilities (Some opts) = Inl (Error (
      if url opts = None then ''<url> is required''
      else if title opts = None then ''options.title is required''
      else if format opts = None then ''options.format is required''
      else if identifier opts = None then ''options.identifier is required''
      else if minzoom opts = None then ''options.minzoom is required''
      else ''options.maxzoom is required''))) \<and>
    getCapabilities None = Inl (Error ''<url> is required'')"
proof -
  from assms have "falsy (url opts) \<or> falsy (title opts) \<or> falsy (format opts) \<or>
    identifier opts = None \<or> minzoom opts = None \<or> maxzoom opts = None"
    by auto
  then have first: "getCapabilities (Some opts) = Inl (Error (
      if falsy (url opts) then ''<url> is required''
      else if falsy (title opts) then ''options.title is required''
      else if falsy (format opts) then ''options.format is required''
      else if identifier opts = None then ''options.identifier is required''
      else if minzoom opts = None then ''options.minzoom is required''
      else ''options.maxzoom is required''))"
    by (rule getCapabilities_rejects)
  have absent: "falsy s \<longleftrightarrow> s = None" if "s \<noteq> Some []" for s
    using that by (cases s) simp_all
  have "getCapabilities None = Inl (Error ''<url> is required'')"
    by (simp add: getCapabilities_def Capabilities_def no_options_def Let_def)
  with first show ?thesis
    by (simp add: absent)
qed

text \<open>Each of the six fields removed from the options of the test, one at a time.\<close>

theorem getCapabilities_missing_field_witness:
  "getCapabilities (Some (tile_service\<lparr>url := None\<rparr>)) = Inl (Error ''<url> is required'') \<and>
   getCapabilities (Some (tile_service\<lparr>title := None\<rparr>)) = Inl (Error ''options.title is required'') \<and>
   getCapabilities (Some (tile_service\<lparr>format := None\<rparr>)) = Inl (Error ''options.format is required'') \<and>
   getCapabilities (Some (tile_service\<lparr>identifier := None\<rparr>)) = Inl (Error ''options.identifier is required'') \<and>
   getCapabilities (Some (tile_service\<lparr>minzoom := None\<rparr>)) = Inl (Error ''options.minzoom is required'') \<and>
   getCapabilities (Some (tile_service\<lparr>maxzoom := None\<rparr>)) = Inl (Error ''options.maxzoom is required'')"
  using getCapabilities_missing_field [of "tile_service\<lparr>url := None\<rparr>"]
    getCapabilities_missing_field [of "tile_service\<lparr>title := None\<rparr>"]
    getCapabilities_missing_field [of "tile_service\<lparr>format := None\<rparr>"]
    getCapabilities_missing_field [of "tile_service\<lparr>identifier := None\<rparr>"]
    getCapabilities_missing_field [of "tile_service\<lparr>minzoom := None\<rparr>"]
    getCapabilities_missing_field [of "tile_service\<lparr>maxzoom := None\<rparr>"]
  by (simp add: tile_service_fields)

text \<open>
  The claim as first stated lets the error name the missing field. With an empty url and no
  title the error names url, which is supplied, and not the title, which is missing.
\<close>

theorem getCapabilities_missing_field_counterexample:
  "title (tile_service\<lparr>url := Some [], title := None\<rparr>) = None \<and>
   url (tile_service\<lparr>url := Some [], title := None\<rparr>) = Some [] \<and>
   getCapabilities (Some (tile_service\<lparr>url := Some [], title := None\<rparr>)) =
     Inl (Error ''<url> is required'')"
  using getCapabilities_rejects [of "tile_service\<lparr>url := Some [], title := None\<rparr>"]
  by simp

subsection \<open>C3: resolutions of a reversed zoom range\<close>




subsection \<open>C4: the indentation width\<close>

text \<open>
  C4. Both entry points compute the width as \<^verbatim>\<open>options.spaces || SPACES\<close>, so a supplied
  \<open>0\<close> is replaced by the default: with \<open>spaces = 0\<close> the serialiser is called with the
  width \<open>2\<close>, not with \<open>0\<close>.
\<close>

theorem spaces_zero_indents_by_two:
  "indentation_of (getCapabilities (Some (tile_service\<lparr>spaces := Some 0\<rparr>))) = Some 2 \<and>
   indentation_of (exception (Some ''Layer not found'') (Some \<lparr>spaces = Some 0\<rparr>)) = Some 2"
proof -
  obtain doc where "getCapabilities (Some (tile_service\<lparr>spaces := Some 0\<rparr>)) =
      Inr (js2xml doc True (or_number (spaces (tile_service\<lparr>spaces := Some 0\<rparr>)) SPACES))"
    using getCapabilities_ok [of "tile_service\<lparr>spaces := Some 0\<rparr>" 10 18,
        OF _ _ _ _ _ _ resolutions_10_18]
    by (auto simp: tile_service_fields)
  then have "indentation_of (getCapabilities (Some (tile_service\<lparr>spaces := Some 0\<rparr>))) = Some 2"
    by (simp add: indentation_of_def or_number_def SPACES_def)
  moreover have "indentation_of (exception (Some ''Layer not found'') (Some \<lparr>spaces = Some 0\<rparr>)) = Some 2"
    by (simp add: indentation_of_def exception_def Let_def or_number_def SPACES_def)
  ultimately show ?thesis by simp
qed

subsection \<open>C5: resolutions of one zoom level and of the levels 10 to 18\<close>

text \<open>
  C5, as amended. For every integer \<open>z\<close> with \<open>-2^53 \<le> z < 2^53\<close>, \<open>resolutions z z\<close> is the
  one value \<open>resolution z\<close>, where \<open>resolution z = 2 * 20037508.3428 / (256 * 2^z)\<close>;
  \<open>resolutions 10 18\<close> is the resolutions of the nine levels 10, 11, ..., 18, and they are
  strictly decreasing.
\<close>

theorem resolutions_single_zoom:
  assumes "- (2 ^ 53) \<le> z" "z < 2 ^ 53"
  shows "resolutions z z = Inr [resolution z] \<and>
   resolution z = 2 * 20037508.3428 / (256 * 2 powi z) \<and>
   (\<exists>rs. resolutions 10 18 = Inr rs \<and> length rs = 9 \<and> sorted_wrt (\<lambda>x y. y < x) rs \<and>
      rs = map resolution [10, 11, 12, 13, 14, 15, 16, 17, 18])"
proof -
  from assms have "resolutions z z = Inr [resolution z]"
    by (simp add: resolutions_ascending)
  moreover have "resolution z = 2 * 20037508.3428 / (256 * 2 powi z)"
    by (simp add: resolution_def circumference_def)
  moreover have "sorted_wrt (\<lambda>x y. y < x) (map resolution [10, 11, 12, 13, 14, 15, 16, 17, 18])"
    by (rule resolutions_decreasing [OF resolutions_10_18]) simp_all
  ultimately show ?thesis
    using resolutions_10_18 by simp
qed

theorem resolutions_single_zoom_witness:
  "resolutions 3 3 = Inr [resolution 3] \<and>
   resolutions (- 9007199254740992) (- 9007199254740992) = Inr [resolution (- 9007199254740992)] \<and>
   resolutions 9007199254740991 9007199254740991 = Inr [resolution 9007199254740991]"
proof -
  have "resolutions 3 3 = Inr [resolution 3]"
    by (rule resolutions_single_zoom [of 3, THEN conjunct1]) simp_all
  moreover have "resolutions (- 9007199254740992) (- 9007199254740992) =
      Inr [resolution (- 9007199254740992)]"
    by (rule resolutions_single_zoom [of "- 9007199254740992", THEN conjunct1]) simp_all
  moreover have "resolutions 9007199254740991 9007199254740991 =
      Inr [resolution 9007199254740991]"
    by (rule resolutions_single_zoom [of 9007199254740991, THEN conjunct1]) simp_all
  ultimately show ?thesis by (intro conjI)
qed

text \<open>
  The claim as first stated covers every integer. At \<open>z = 2^53\<close> the sum \<^verbatim>\<open>maxzoom + 1\<close> is
  rounded back to \<open>2^53\<close>, \<open>range\<close> gets an empty interval and the result has no value.
\<close>

theorem resolutions_single_zoom_counterexample:
  "resolutions 9007199254740992 9007199254740992 = Inr []"
proof -
  have "nearest (9007199254740992 + 1) = 9007199254740992"
    using nearest_2_53_plus_1 by simp
  moreover have "range_js 9007199254740992 (Some 9007199254740992) None = Inr []"
    using range_js_ascending [of 9007199254740992 9007199254740992] by simp
  ultimately show ?thesis
    by (simp add: resolutions_def)
qed

subsection \<open>C6: the exception report\<close>

text \<open>
  C6, as amended. For an omitted message and for a supplied message that is not empty,
  whatever the options, \<open>exception\<close> raises no error of its own and calls the serialiser in
  compact mode with the width \<^verbatim>\<open>options.spaces || 2\<close>. The tree it hands over is the XML
  declaration and a ServiceExceptionReport with the version attribute 1.1.1 and a single
  ServiceException, whose text is the placeholder \<open>foo\<close> for an omitted message and the
  message itself for a supplied one. \<open>exception\<close> can fail all the same: the serialiser
  raises \<open>RangeError\<close> when the width is \<open>-2\<close> or less.
\<close>

theorem exception_report:
  "exception None opts = Inr (js2xml
        (Obj [(''_declaration'', Obj [(''_attributes'', Obj
                [(''version'', Str ''1.0''), (''encoding'', Str ''utf-8'')])]),
              (''ServiceExceptionReport'', Obj
                [(''_attributes'', Obj [(''version'', Str ''1.1.1'')]),
                 (''ServiceException'', Obj [(''_text'', Str ''foo'')])])])
        True
        (or_number (spaces (case opts of None \<Rightarrow> no_exception_options | Some given \<Rightarrow> given)) SPACES)) \<and>
   path (emitted (exception None opts))
     [''ServiceExceptionReport'', ''ServiceException'', ''_text''] = Str ''foo'' \<and>
   (msg \<noteq> [] \<longrightarrow>
      exception (Some msg) opts = Inr (js2xml
        (Obj [(''_declaration'', Obj [(''_attributes'', Obj
                [(''version'', Str ''1.0''), (''encoding'', Str ''utf-8'')])]),
              (''ServiceExceptionReport'', Obj
                [(''_attributes'', Obj [(''version'', Str ''1.1.1'')]),
                 (''ServiceException'', Obj [(''_text'', Str msg)])])])
        True
        (or_number (spaces (case opts of None \<Rightarrow> no_exception_options | Some given \<Rightarrow> given)) SPACES))) \<and>
   (or_number (spaces (case opts of None \<Rightarrow> no_exception_options | Some given \<Rightarrow> given)) SPACES < - 1 \<longrightarrow>
      raises (exception m opts))"
  by (simp add: exception_def or_string_def emitted_def path_def Let_def raises_def
      js2xml_raises_def array_length_def)

theorem exception_report_witness:
  "exception (Some ''Layer not found'') (Some \<lparr>spaces = Some 2\<rparr>) = Inr (js2xml
        (Obj [(''_declaration'', Obj [(''_attributes'', Obj
                [(''version'', Str ''1.0''), (''encoding'', Str ''utf-8'')])]),
              (''ServiceExceptionReport'', Obj
                [(''_attributes'', Obj [(''version'', Str ''1.1.1'')]),
                 (''ServiceException'', Obj [(''_text'', Str ''Layer not found'')])])])
        True 2) \<and>
   raises (exception (Some ''Layer not found'') (Some \<lparr>spaces = Some (- 2)\<rparr>))"
proof -
  have "exception (Some ''Layer not found'') (Some \<lparr>spaces = Some 2\<rparr>) = Inr (js2xml
        (Obj [(''_declaration'', Obj [(''_attributes'', Obj
                [(''version'', Str ''1.0''), (''encoding'', Str ''utf-8'')])]),
              (''ServiceExceptionReport'', Obj
                [(''_attributes'', Obj [(''version'', Str ''1.1.1'')]),
                 (''ServiceException'', Obj [(''_text'', Str ''Layer not found'')])])])
        True 2)"
    using exception_report [of "Some \<lparr>spaces = Some 2\<rparr>" "''Layer not found''"]
    by (simp add: or_number_def)
  moreover have "raises (exception (Some ''Layer not found'') (Some \<lparr>spaces = Some (- 2)\<rparr>))"
    using exception_report [of "Some \<lparr>spaces = Some (- 2)\<rparr>" "''Layer not found''"
      "Some ''Layer not found''", THEN conjunct2, THEN conjunct2, THEN conjunct2]
    by (simp add: or_number_def)
  ultimately show ?thesis by (intro conjI)
qed

text \<open>
  The claim as first stated covers every supplied message; the empty string is a supplied
  message, and its report does not carry the empty text.
\<close>

theorem exception_supplied_empty_counterexample:
  "path (emitted (exception (Some []) (Some \<lparr>spaces = Some 2\<rparr>)))
     [''ServiceExceptionReport'', ''ServiceException'', ''_text''] \<noteq> Str []"
  by (simp add: exception_def or_string_def emitted_def path_def Let_def)

subsection \<open>C7: the jpg alias\<close>



subsection \<open>C8: normalize\<close>

text \<open>
  C8. \<open>normalize\<close> (here \<open>normalize_url\<close>) is the identity on every string, the empty one
  included: the pattern asks for a slash after the end of the input and matches nowhere, so
  a URL that ends in a slash comes back unchanged.
\<close>

theorem normalize_identity: "normalize_url (Some u) = Some u"
  by (simp add: normalize_url_def replace_end_slash)

subsection \<open>C9: the empty message\<close>

text \<open>
  C9. \<open>exception\<close> called with the empty string as message returns what it returns for an
  omitted message, and the text of the ServiceException is the placeholder \<open>foo\<close>.
\<close>

theorem exception_empty_message:
  "exception (Some []) opts = exception None opts \<and>
   path (emitted (exception (Some []) opts))
     [''ServiceExceptionReport'', ''ServiceException'', ''_text''] = Str ''foo''"
  by (simp add: exception_def or_string_def emitted_def path_def Let_def)

subsection \<open>C10: empty strings in the required fields\<close>

text \<open>
  C10, as amended. Let title, url and format be non-empty and let minzoom and maxzoom be
  integers that doubles handle exactly, \<open>|minzoom| \<le> 2^53\<close> and \<open>-2^53 \<le> maxzoom < 2^53\<close>,
  with less than \<open>2^32\<close> zoom levels between them. Then \<open>getCapabilities\<close> accepts the empty
  string as identifier: no builder raises, and the serialiser is called with the width
  \<^verbatim>\<open>options.spaces || 2\<close> and a document that has the empty text as the Layers of the
  TileSet and as the Name of the sub-Layer. The call of the serialiser raises when that
  width is \<open>-2\<close> or less. An empty title, url or format makes \<open>getCapabilities\<close> fail with the
  message of the first of url, title, format that is missing or empty.
\<close>

theorem empty_identifier_accepted:
  "(identifier opts = Some [] \<and> title opts \<noteq> None \<and> title opts \<noteq> Some [] \<and>
    url opts \<noteq> None \<and> url opts \<noteq> Some [] \<and> format opts \<noteq> None \<and> format opts \<noteq> Some [] \<and>
    minzoom opts = Some zmin \<and> maxzoom opts = Some zmax \<and>
    \<bar>zmin\<bar> \<le> 2 ^ 53 \<and> - (2 ^ 53) \<le> zmax \<and> zmax < 2 ^ 53 \<and> \<bar>zmax + 1 - zmin\<bar> < 2 ^ 32 \<longrightarrow>
      (\<exists>doc. getCapabilities (Some opts) = Inr (js2xml doc True (or_number (spaces opts) SPACES)) \<and>
        path doc [''WMT_MS_Capabilities'', ''Capability'', ''VendorSpecificCapabilities'',
          ''TileSet'', ''Layers'', ''_text''] = Str [] \<and>
        path doc [''WMT_MS_Capabilities'', ''Capability'', ''Layer'', ''Layer'',
          ''Name'', ''_text''] = Str []) \<and>
      (or_number (spaces opts) SPACES < - 1 \<longrightarrow> raises (getCapabilities (Some opts)))) \<and>
   (title opts' = Some [] \<or> url opts' = Some [] \<or> format opts' = Some [] \<longrightarrow>
      getCapabilities (Some opts') = Inl (Error (
        if falsy (url opts') then ''<url> is required''
        else if falsy (title opts') then ''options.title is required''
        else ''options.format is required'')))"
proof (intro conjI impI)
  assume a: "identifier opts = Some [] \<and> title opts \<noteq> None \<and> title opts \<noteq> Some [] \<and>
    url opts \<noteq> None \<and> url opts \<noteq> Some [] \<and> format opts \<noteq> None \<and> format opts \<noteq> Some [] \<and>
    minzoom opts = Some zmin \<and> maxzoom opts = Some zmax \<and>
    \<bar>zmin\<bar> \<le> 2 ^ 53 \<and> - (2 ^ 53) \<le> zmax \<and> zmax < 2 ^ 53 \<and> \<bar>zmax + 1 - zmin\<bar> < 2 ^ 32"
  have truthy: "\<not> falsy s" if "s \<noteq> None" "s \<noteq> Some []" for s
    using that by (cases s) simp_all
  from a obtain rs where rs: "resolutions zmin zmax = Inr rs"
    using resolutions_ok [of zmin zmax] by auto
  from a obtain doc where ok: "getCapabilities (Some opts) =
      Inr (js2xml doc True (or_number (spaces opts) SPACES))"
    using getCapabilities_ok [of opts zmin zmax rs, OF _ _ _ _ _ _ rs] by (auto simp: truthy)
  then obtain r t l where t: "TileSet opts = Inr t" and l: "Layer opts = Inr l"
    and pt: "path doc [''WMT_MS_Capabilities'', ''Capability'', ''VendorSpecificCapabilities''] = t"
    and pl: "path doc [''WMT_MS_Capabilities'', ''Capability'', ''Layer''] = get l ''Layer''"
    using getCapabilities_parts [OF ok] by auto
  have "path doc ([''WMT_MS_Capabilities'', ''Capability'', ''VendorSpecificCapabilities''] @
      [''TileSet'', ''Layers'', ''_text'']) = Str []"
    unfolding path_append pt using TileSet_Format(2) [OF t] a by (simp add: of_string_def)
  moreover have "path doc ([''WMT_MS_Capabilities'', ''Capability'', ''Layer''] @
      [''Layer'', ''Name'', ''_text'']) = Str []"
    unfolding path_append pl using Layer_boxes(6) [OF l] a by (simp add: of_string_def path_Cons)
  ultimately show "\<exists>doc. getCapabilities (Some opts) =
        Inr (js2xml doc True (or_number (spaces opts) SPACES)) \<and>
        path doc [''WMT_MS_Capabilities'', ''Capability'', ''VendorSpecificCapabilities'',
          ''TileSet'', ''Layers'', ''_text''] = Str [] \<and>
        path doc [''WMT_MS_Capabilities'', ''Capability'', ''Layer'', ''Layer'',
          ''Name'', ''_text''] = Str []"
    using ok by simp
  show "raises (getCapabilities (Some opts))" if "or_number (spaces opts) SPACES < - 1"
    using that by (simp add: ok raises_def js2xml_raises_def array_length_def)
next
  assume "title opts' = Some [] \<or> url opts' = Some [] \<or> format opts' = Some []"
  then have f: "falsy (url opts') \<or> falsy (title opts') \<or> falsy (format opts')"
    by auto
  then have "falsy (url opts') \<or> falsy (title opts') \<or> falsy (format opts') \<or>
    identifier opts' = None \<or> minzoom opts' = None \<or> maxzoom opts' = None"
    by blast
  from getCapabilities_rejects [OF this] f
  show "getCapabilities (Some opts') = Inl (Error (
        if falsy (url opts') then ''<url> is required''
        else if falsy (title opts') then ''options.title is required''
        else ''options.format is required''))"
    by auto
qed

theorem empty_identifier_accepted_witness:
  "(\<exists>doc. getCapabilities (Some (tile_service\<lparr>identifier := Some []\<rparr>)) =
        Inr (js2xml doc True 2) \<and>
        path doc [''WMT_MS_Capabilities'', ''Capability'', ''VendorSpecificCapabilities'',
          ''TileSet'', ''Layers'', ''_text''] = Str [] \<and>
        path doc [''WMT_MS_Capabilities'', ''Capability'', ''Layer'', ''Layer'',
          ''Name'', ''_text''] = Str []) \<and>
   getCapabilities (Some (tile_service\<lparr>title := Some []\<rparr>)) = Inl (Error ''options.title is required'') \<and>
   getCapabilities (Some (tile_service\<lparr>url := Some []\<rparr>)) = Inl (Error ''<url> is required'') \<and>
   getCapabilities (Some (tile_service\<lparr>format := Some []\<rparr>)) = Inl (Error ''options.format is required'') \<and>
   raises (getCapabilities (Some (tile_service\<lparr>identifier := Some [], spaces := Some (- 2)\<rparr>)))"
proof -
  let ?empty = "tile_service\<lparr>identifier := Some []\<rparr>"
  let ?narrow = "tile_service\<lparr>identifier := Some [], spaces := Some (- 2)\<rparr>"
  from empty_identifier_accepted [of ?empty 10 18 "tile_service\<lparr>title := Some []\<rparr>"]
    empty_identifier_accepted [of ?empty 10 18 "tile_service\<lparr>url := Some []\<rparr>"]
    empty_identifier_accepted [of ?empty 10 18 "tile_service\<lparr>format := Some []\<rparr>"]
  have "(\<exists>doc. getCapabilities (Some ?empty) = Inr (js2xml doc True 2) \<and>
        path doc [''WMT_MS_Capabilities'', ''Capability'', ''VendorSpecificCapabilities'',
          ''TileSet'', ''Layers'', ''_text''] = Str [] \<and>
        path doc [''WMT_MS_Capabilities'', ''Capability'', ''Layer'', ''Layer'',
          ''Name'', ''_text''] = Str []) \<and>
   getCapabilities (Some (tile_service\<lparr>title := Some []\<rparr>)) = Inl (Error ''options.title is required'') \<and>
   getCapabilities (Some (tile_service\<lparr>url := Some []\<rparr>)) = Inl (Error ''<url> is required'') \<and>
   getCapabilities (Some (tile_service\<lparr>format := Some []\<rparr>)) = Inl (Error ''options.format is required'')"
    by (simp add: tile_service_fields or_number_def)
  moreover from empty_identifier_accepted [of ?narrow 10 18 tile_service, THEN conjunct1]
  have "raises (getCapabilities (Some ?narrow))"
    by (simp add: tile_service_fields or_number_def)
  ultimately show ?thesis by (intro conjI) blast+
qed

text \<open>
  The claim as first stated asks only for defined zoom levels. With the empty identifier
  and the levels 0 to 4294967295 the TileSet builder raises \<open>RangeError\<close>.
\<close>

theorem empty_identifier_counterexample:
  "getCapabilities (Some (tile_service\<lparr>identifier := Some [], minzoom := Some 0,
      maxzoom := Some 4294967295\<rparr>)) = Inl RangeError"
proof -
  have "resolutions 0 4294967295 = Inl RangeError"
    by (rule resolutions_too_long) simp_all
  then show ?thesis
    by (intro getCapabilities_RangeError [of _ 0 4294967295]) (simp_all add: tile_service_fields)
qed

end
